theory Spec2Isabelle
  imports Complex_Main "HOL-Library.Log_Nat" "HOL-Library.Sublist"
begin

section \<open>Report text and character classes\<close>

text \<open>
  The raw report is the Python \<^verbatim>\<open>str\<close> that \<^verbatim>\<open>run_yosys\<close> returns. It is modelled as a
  \<^typ>\<open>string\<close>: a list of characters with code points below 256. On this range the
  classes of Python's \<^verbatim>\<open>re\<close> module (for \<^verbatim>\<open>str\<close> patterns) are:
  \<^item> \<^verbatim>\<open>\d\<close>: the decimal digits \<^verbatim>\<open>0\<close> to \<^verbatim>\<open>9\<close>;
  \<^item> \<^verbatim>\<open>\s\<close>: code points 9 to 13, 28 to 32, 133 and 160;
  \<^item> \<^verbatim>\<open>\w\<close> (which decides \<^verbatim>\<open>\b\<close>): alphanumeric characters and the underscore.
\<close>

definition code :: "char \<Rightarrow> nat" where
  "code c = of_char c"

definition is_digit :: "char \<Rightarrow> bool" where
  "is_digit c \<longleftrightarrow> 48 \<le> code c \<and> code c \<le> 57"

definition is_space :: "char \<Rightarrow> bool" where
  "is_space c \<longleftrightarrow> (9 \<le> code c \<and> code c \<le> 13) \<or> (28 \<le> code c \<and> code c \<le> 32)
     \<or> code c = 133 \<or> code c = 160"

definition is_word :: "char \<Rightarrow> bool" where
  "is_word c \<longleftrightarrow> (48 \<le> code c \<and> code c \<le> 57) \<or> (65 \<le> code c \<and> code c \<le> 90)
     \<or> code c = 95 \<or> (97 \<le> code c \<and> code c \<le> 122)
     \<or> code c = 170 \<or> code c = 178 \<or> code c = 179 \<or> code c = 181
     \<or> code c = 185 \<or> code c = 186 \<or> (188 \<le> code c \<and> code c \<le> 190)
     \<or> (192 \<le> code c \<and> code c \<le> 214) \<or> (216 \<le> code c \<and> code c \<le> 246)
     \<or> 248 \<le> code c"

definition newline :: char where
  "newline = CHR 0x0A"

section \<open>The regular expressions of the extractor\<close>

text \<open>
  \<^verbatim>\<open>get_counts\<close> uses three patterns. Each is a sequence of items of the following
  kinds: a literal character, a greedy repetition \<^verbatim>\<open>*\<close> or \<^verbatim>\<open>+\<close> of a character class,
  the capturing group \<^verbatim>\<open>(\d+)\<close>, and the assertions \<^verbatim>\<open>^\<close>, \<^verbatim>\<open>$\<close> (both under
  \<^verbatim>\<open>re.MULTILINE\<close>) and \<^verbatim>\<open>\b\<close>.
\<close>

datatype cls = Digit | Space

datatype item = Lit char | Star cls | Plus cls | CapPlus cls | Bol | Eol | Wordb

type_synonym regex = "item list"

fun in_cls :: "cls \<Rightarrow> char \<Rightarrow> bool" where
  "in_cls Digit c = is_digit c"
| "in_cls Space c = is_space c"

text \<open>
  A position in the text is the character before it (\<open>None\<close> at the start of the
  text) and the text that follows it.
\<close>

definition prev_after :: "char option \<Rightarrow> string \<Rightarrow> char option" where
  "prev_after p w = (if w = [] then p else Some (last w))"

definition word_before :: "char option \<Rightarrow> bool" where
  "word_before p = (case p of None \<Rightarrow> False | Some c \<Rightarrow> is_word c)"

definition word_after :: "string \<Rightarrow> bool" where
  "word_after s = (case s of [] \<Rightarrow> False | c # _ \<Rightarrow> is_word c)"

definition at_bol :: "char option \<Rightarrow> bool" where
  "at_bol p \<longleftrightarrow> p = None \<or> p = Some newline"

definition at_eol :: "string \<Rightarrow> bool" where
  "at_eol s = (case s of [] \<Rightarrow> True | c # _ \<Rightarrow> c = newline)"

fun first_some :: "'a option list \<Rightarrow> 'a option" where
  "first_some [] = None"
| "first_some (None # xs) = first_some xs"
| "first_some (Some x # xs) = Some x"

definition advance :: "string list \<Rightarrow> nat \<Rightarrow> (string list \<times> nat) option \<Rightarrow> (string list \<times> nat) option" where
  "advance g k r = (case r of None \<Rightarrow> None | Some (gs, n) \<Rightarrow> Some (g @ gs, k + n))"

text \<open>
  The backtracking matcher, anchored at one position. It returns the captured groups
  and the number of characters consumed. A greedy repetition takes the longest run of
  its class first and gives characters back one at a time while the rest of the pattern
  fails, as the \<^verbatim>\<open>re\<close> engine does.
\<close>

fun rmatch :: "regex \<Rightarrow> char option \<Rightarrow> string \<Rightarrow> (string list \<times> nat) option" where
  "rmatch [] p s = Some ([], 0)"
| "rmatch (Lit c # r) p s =
     (case s of [] \<Rightarrow> None
      | x # xs \<Rightarrow> if x = c then advance [] 1 (rmatch r (Some x) xs) else None)"
| "rmatch (Bol # r) p s = (if at_bol p then rmatch r p s else None)"
| "rmatch (Eol # r) p s = (if at_eol s then rmatch r p s else None)"
| "rmatch (Wordb # r) p s = (if word_before p \<noteq> word_after s then rmatch r p s else None)"
| "rmatch (Star c # r) p s =
     first_some (map (\<lambda>k. advance [] k (rmatch r (prev_after p (take k s)) (drop k s)))
       (rev [0 ..< Suc (length (takeWhile (in_cls c) s))]))"
| "rmatch (Plus c # r) p s =
     first_some (map (\<lambda>k. advance [] k (rmatch r (prev_after p (take k s)) (drop k s)))
       (rev [1 ..< Suc (length (takeWhile (in_cls c) s))]))"
| "rmatch (CapPlus c # r) p s =
     first_some (map (\<lambda>k. advance [take k s] k (rmatch r (prev_after p (take k s)) (drop k s)))
       (rev [1 ..< Suc (length (takeWhile (in_cls c) s))]))"

text \<open>\<^verbatim>\<open>re.search\<close>: the groups of the leftmost match, trying every position in turn.\<close>

fun search :: "regex \<Rightarrow> char option \<Rightarrow> string \<Rightarrow> string list option" where
  "search re p [] = map_option fst (rmatch re p [])"
| "search re p (x # xs) =
     (case rmatch re p (x # xs) of
        Some (g, n) \<Rightarrow> Some g
      | None \<Rightarrow> search re (Some x) xs)"

text \<open>
  \<^verbatim>\<open>re.findall\<close> and \<^verbatim>\<open>re.finditer\<close>: the groups of all non-overlapping matches, from left
  to right. The scan resumes where a match ended; after an empty match it moves on by
  one character.
\<close>

function findall :: "regex \<Rightarrow> char option \<Rightarrow> string \<Rightarrow> string list list" where
  "findall re p s =
     (case rmatch re p s of
        None \<Rightarrow> (case s of [] \<Rightarrow> [] | x # xs \<Rightarrow> findall re (Some x) xs)
      | Some (g, n) \<Rightarrow>
          g # (if s = [] then []
               else findall re (prev_after p (take (max 1 n) s)) (drop (max 1 n) s)))"
  by pat_completeness auto
termination
  by (relation "measure (\<lambda>(re, p, s). length s)") auto

definition group1 :: "string list \<Rightarrow> string" where
  "group1 g = (case g of [] \<Rightarrow> [] | x # _ \<Rightarrow> x)"

text \<open>\<^verbatim>\<open>(\d+) objects\<close>\<close>

definition objects_re :: regex where
  "objects_re = CapPlus Digit # map Lit '' objects''"

text \<open>\<^verbatim>\<open>^\s*(\d+)\s+cells\s*$\<close>\<close>

definition cells_re :: regex where
  "cells_re = [Bol, Star Space, CapPlus Digit, Plus Space] @ map Lit ''cells'' @ [Star Space, Eol]"

text \<open>\<^verbatim>\<open>\band\s*=\s*(\d+)\<close>\<close>

definition and_re :: regex where
  "and_re = [Wordb] @ map Lit ''and'' @ [Star Space, Lit CHR ''='', Star Space, CapPlus Digit]"

section \<open>The extractor: \<^verbatim>\<open>get_counts\<close>\<close>

datatype py_error = ValueError | OverflowError | ZeroDivisionError

text \<open>
  \<^verbatim>\<open>int(s)\<close> on a captured group. A group captured by \<^verbatim>\<open>(\d+)\<close> is a non-empty run of
  decimal digits, on which \<^verbatim>\<open>int\<close> reads the decimal numeral (leading zeros allowed).
  Any other string is answered with \<open>ValueError\<close> here; no pattern of this program
  captures one. (The limit that recent interpreters put on the number of digits
  \<^verbatim>\<open>int\<close> accepts is a setting of the interpreter and is not modelled.)
\<close>

definition digit_val :: "char \<Rightarrow> nat" where
  "digit_val c = code c - 48"

definition dec_value :: "string \<Rightarrow> nat" where
  "dec_value s = foldl (\<lambda>a c. 10 * a + digit_val c) 0 s"

definition py_int :: "string \<Rightarrow> py_error + int" where
  "py_int s = (if s \<noteq> [] \<and> list_all is_digit s then Inr (int (dec_value s)) else Inl ValueError)"

text \<open>\<^verbatim>\<open>sep.join(xs)\<close>\<close>

fun join :: "string \<Rightarrow> string list \<Rightarrow> string" where
  "join sep [] = []"
| "join sep [x] = x"
| "join sep (x # y # ys) = x @ sep @ join sep (y # ys)"

definition FF_TYPES :: "string list" where
  "FF_TYPES =
    [''$sr'', ''$ff'', ''$dff'', ''$dffe'', ''$dffsr'', ''$dffsre'',
     ''$adff'', ''$adffe'', ''$aldff'', ''$aldffe'',
     ''$sdff'', ''$sdffe'', ''$sdffce'',
     ''$dlatch'', ''$adlatch'', ''$dlatchsr'',
     ''$_DFF_N_'', ''$_DFF_P_'',
     ''$_DFF_NN0_'', ''$_DFF_NN1_'', ''$_DFF_NP0_'', ''$_DFF_NP1_'',
     ''$_DFF_PN0_'', ''$_DFF_PN1_'', ''$_DFF_PP0_'', ''$_DFF_PP1_'',
     ''$_DFFE_NN_'', ''$_DFFE_NP_'', ''$_DFFE_PN_'', ''$_DFFE_PP_'',
     ''$_DFFE_NN0N_'', ''$_DFFE_NN0P_'', ''$_DFFE_NN1N_'', ''$_DFFE_NN1P_'',
     ''$_DFFE_NP0N_'', ''$_DFFE_NP0P_'', ''$_DFFE_NP1N_'', ''$_DFFE_NP1P_'',
     ''$_DFFE_PN0N_'', ''$_DFFE_PN0P_'', ''$_DFFE_PN1N_'', ''$_DFFE_PN1P_'',
     ''$_DFFE_PP0N_'', ''$_DFFE_PP0P_'', ''$_DFFE_PP1N_'', ''$_DFFE_PP1P_'',
     ''$_DFFSR_NNN_'', ''$_DFFSR_NNP_'', ''$_DFFSR_NPN_'', ''$_DFFSR_NPP_'',
     ''$_DFFSR_PNN_'', ''$_DFFSR_PNP_'', ''$_DFFSR_PPN_'', ''$_DFFSR_PPP_'',
     ''$_DFFSRE_NNNN_'', ''$_DFFSRE_NNNP_'', ''$_DFFSRE_NNPN_'', ''$_DFFSRE_NNPP_'',
     ''$_DFFSRE_NPNN_'', ''$_DFFSRE_NPNP_'', ''$_DFFSRE_NPPN_'', ''$_DFFSRE_NPPP_'',
     ''$_DFFSRE_PNNN_'', ''$_DFFSRE_PNNP_'', ''$_DFFSRE_PNPN_'', ''$_DFFSRE_PNPP_'',
     ''$_DFFSRE_PPNN_'', ''$_DFFSRE_PPNP_'', ''$_DFFSRE_PPPN_'', ''$_DFFSRE_PPPP_'',
     ''$_SDFF_NN0_'', ''$_SDFF_NN1_'', ''$_SDFF_NP0_'', ''$_SDFF_NP1_'',
     ''$_SDFF_PN0_'', ''$_SDFF_PN1_'', ''$_SDFF_PP0_'', ''$_SDFF_PP1_'',
     ''$_SDFFE_NN0N_'', ''$_SDFFE_NN0P_'', ''$_SDFFE_NN1N_'', ''$_SDFFE_NN1P_'',
     ''$_SDFFE_NP0N_'', ''$_SDFFE_NP0P_'', ''$_SDFFE_NP1N_'', ''$_SDFFE_NP1P_'',
     ''$_SDFFE_PN0N_'', ''$_SDFFE_PN0P_'', ''$_SDFFE_PN1N_'', ''$_SDFFE_PN1P_'',
     ''$_SDFFE_PP0N_'', ''$_SDFFE_PP0P_'', ''$_SDFFE_PP1N_'', ''$_SDFFE_PP1P_'',
     ''$_SDFFCE_NN0N_'', ''$_SDFFCE_NN0P_'', ''$_SDFFCE_NN1N_'', ''$_SDFFCE_NN1P_'',
     ''$_SDFFCE_NP0N_'', ''$_SDFFCE_NP0P_'', ''$_SDFFCE_NP1N_'', ''$_SDFFCE_NP1P_'',
     ''$_SDFFCE_PN0N_'', ''$_SDFFCE_PN0P_'', ''$_SDFFCE_PN1N_'', ''$_SDFFCE_PN1P_'',
     ''$_SDFFCE_PP0N_'', ''$_SDFFCE_PP0P_'', ''$_SDFFCE_PP1N_'', ''$_SDFFCE_PP1P_'',
     ''$_DLATCH_N_'', ''$_DLATCH_P_'',
     ''$_DLATCH_NN0_'', ''$_DLATCH_NN1_'', ''$_DLATCH_NP0_'', ''$_DLATCH_NP1_'',
     ''$_DLATCH_PN0_'', ''$_DLATCH_PN1_'', ''$_DLATCH_PP0_'', ''$_DLATCH_PP1_'',
     ''$_DLATCHSR_NNN_'', ''$_DLATCHSR_NNP_'', ''$_DLATCHSR_NPN_'', ''$_DLATCHSR_NPP_'',
     ''$_DLATCHSR_PNN_'', ''$_DLATCHSR_PNP_'', ''$_DLATCHSR_PPN_'', ''$_DLATCHSR_PPP_'',
     ''$_ALDFF_NN_'', ''$_ALDFF_NP_'', ''$_ALDFF_PN_'', ''$_ALDFF_PP_'',
     ''$_ALDFFE_NNN_'', ''$_ALDFFE_NNP_'', ''$_ALDFFE_NPN_'', ''$_ALDFFE_NPP_'',
     ''$_ALDFFE_PNN_'', ''$_ALDFFE_PNP_'', ''$_ALDFFE_PPN_'', ''$_ALDFFE_PPP_'',
     ''$_SR_NN_'', ''$_SR_NP_'', ''$_SR_PN_'', ''$_SR_PP_'']"

definition ff_select :: string where
  "ff_select = join '' '' (map (\<lambda>t. ''t:'' @ t) FF_TYPES)"

definition synth_cmd :: "string \<Rightarrow> string" where
  "synth_cmd flow = (if flow = ''flatten'' then ''synth -flatten -noabc'' else ''synth -noabc'')"

definition script :: "string \<Rightarrow> string \<Rightarrow> string" where
  "script artifact_path flow =
     [newline] @ ''read_rtlil '' @ artifact_path @ [newline]
     @ synth_cmd flow @ [newline]
     @ ''select -count '' @ ff_select @ [newline]
     @ ''select -count *'' @ [newline]
     @ ''stat'' @ [newline]
     @ ''abc -script +strash;print_stats'' @ [newline]"

text \<open>The loop \<^verbatim>\<open>for m in re.finditer(...): abc_area += int(m.group(1))\<close>.\<close>

fun sum_operands :: "int \<Rightarrow> string list list \<Rightarrow> py_error + int" where
  "sum_operands abc_area [] = Inr abc_area"
| "sum_operands abc_area (m # ms) =
     (case py_int (group1 m) of
        Inl e \<Rightarrow> Inl e
      | Inr v \<Rightarrow> sum_operands (abc_area + v) ms)"

text \<open>
  \<^verbatim>\<open>run_yosys\<close> starts the external tool and returns what it printed; it is a parameter
  of the model: a function from the binary and the script to the report text.
\<close>

definition get_counts ::
  "(string \<Rightarrow> string \<Rightarrow> string) \<Rightarrow> string \<Rightarrow> string \<Rightarrow> string
     \<Rightarrow> py_error + (int \<times> int \<times> int \<times> string)" where
  "get_counts run_yosys yosys_bin artifact_path flow =
     (let output = run_yosys yosys_bin (script artifact_path flow);
          counts = map group1 (findall objects_re None output)
      in case (if length counts \<ge> 1 then py_int (counts ! 0) else Inr 0) of
           Inl e \<Rightarrow> Inl e
         | Inr ff_count \<Rightarrow>
      (case (if length counts \<ge> 2 then py_int (counts ! 1) else Inr 0) of
           Inl e \<Rightarrow> Inl e
         | Inr total_from_select \<Rightarrow>
      (case (case search cells_re None output of
               Some m \<Rightarrow> py_int (group1 m)
             | None \<Rightarrow> Inr total_from_select) of
           Inl e \<Rightarrow> Inl e
         | Inr total_cells \<Rightarrow>
      (case sum_operands 0 (findall and_re None output) of
           Inl e \<Rightarrow> Inl e
         | Inr abc_area \<Rightarrow> Inr (ff_count, total_cells, abc_area, output)))))"

section \<open>What the patterns mean, stated without the matcher\<close>

















text \<open>Auxiliary notions for reasoning about the matcher.\<close>

definition rejects :: "cls \<Rightarrow> regex \<Rightarrow> bool" where
  "rejects c r \<longleftrightarrow> (\<forall>p x xs. in_cls c x \<longrightarrow> rmatch r p (x # xs) = None)"


section \<open>Python floats\<close>

text \<open>
  A Python \<^verbatim>\<open>float\<close> is an IEEE 754 binary64 number. The program builds floats in three
  ways only: the literal \<^verbatim>\<open>0.0\<close>, the true division \<^verbatim>\<open>a / b\<close> of two integers, and the
  product of such a quotient with the integer \<^verbatim>\<open>100\<close>. A float is modelled by its sign and
  its exact magnitude, a rational number; \<open>round_double\<close> rounds a non-negative rational
  to the nearest binary64 magnitude, ties to even (53 significant bits, least exponent
  \<open>-1022\<close>, subnormal numbers included).
\<close>

datatype pyfloat = Finite bool rat | Infinite bool

definition zero_float :: pyfloat where
  "zero_float = Finite False 0"

definition pow2 :: "int \<Rightarrow> rat" where
  "pow2 e = 2 powi e"

definition floor_log2 :: "rat \<Rightarrow> int" where
  "floor_log2 x =
     (let e = int (floorlog 2 (nat (fst (quotient_of x)))) - int (floorlog 2 (nat (snd (quotient_of x))))
      in if pow2 e \<le> x then e else e - 1)"

definition round_half_even :: "rat \<Rightarrow> int" where
  "round_half_even x =
     (let f = \<lfloor>x\<rfloor>; d = x - of_int f
      in if d < 1 / 2 then f else if 1 / 2 < d then f + 1 else if even f then f else f + 1)"

definition quantum :: "rat \<Rightarrow> rat" where
  "quantum x = pow2 (max (floor_log2 x) (- 1022) - 52)"

definition round_double :: "rat \<Rightarrow> rat" where
  "round_double x =
     (if x = 0 then 0 else of_int (round_half_even (x / quantum x)) * quantum x)"

text \<open>
  \<^verbatim>\<open>a / b\<close> on integers: the correctly rounded quotient; \<open>ZeroDivisionError\<close> for a zero
  divisor, \<open>OverflowError\<close> when the rounded quotient is beyond the binary64 range.
\<close>

definition py_truediv :: "int \<Rightarrow> int \<Rightarrow> py_error + pyfloat" where
  "py_truediv a b =
     (if b = 0 then Inl ZeroDivisionError
      else let m = round_double (of_int \<bar>a\<bar> / of_int \<bar>b\<bar>)
           in if pow2 1024 \<le> m then Inl OverflowError
              else Inr (Finite ((a < 0) \<noteq> (b < 0)) m))"

text \<open>\<^verbatim>\<open>x * 100\<close> on a float: the correctly rounded product, infinite beyond the range.\<close>

definition times100 :: "pyfloat \<Rightarrow> pyfloat" where
  "times100 x =
     (case x of
        Infinite s \<Rightarrow> Infinite s
      | Finite s m \<Rightarrow>
          (let r = round_double (m * 100)
           in if pow2 1024 \<le> r then Infinite s else Finite s r))"

text \<open>A float lies between two rationals.\<close>

definition float_between :: "rat \<Rightarrow> rat \<Rightarrow> pyfloat \<Rightarrow> bool" where
  "float_between lo hi x =
     (case x of
        Infinite s \<Rightarrow> False
      | Finite s m \<Rightarrow> lo \<le> (if s then - m else m) \<and> (if s then - m else m) \<le> hi)"

section \<open>Formatting\<close>

definition digit_char :: "nat \<Rightarrow> char" where
  "digit_char d = char_of (48 + d)"

fun show_nat :: "nat \<Rightarrow> string" where
  "show_nat n = (if n < 10 then [digit_char n] else show_nat (n div 10) @ [digit_char (n mod 10)])"

text \<open>\<^verbatim>\<open>str(n)\<close>, which is also how an f-string prints an integer.\<close>

definition py_str :: "int \<Rightarrow> string" where
  "py_str n = (if n < 0 then CHR ''-'' # show_nat (nat (- n)) else show_nat (nat n))"

text \<open>
  The format specification \<^verbatim>\<open>.pf\<close>: the exact value rounded to \<open>p\<close> decimal places, ties
  to even, with the sign of the float.
\<close>

definition fmt_fixed :: "nat \<Rightarrow> pyfloat \<Rightarrow> string" where
  "fmt_fixed p x =
     (case x of
        Infinite s \<Rightarrow> (if s then ''-inf'' else ''inf'')
      | Finite s m \<Rightarrow>
          (let n = nat (round_half_even (m * 10 ^ p));
               fp = show_nat (n mod 10 ^ p)
           in (if s then ''-'' else [])
              @ show_nat (n div 10 ^ p)
              @ (if p = 0 then [] else ''.'' @ replicate (p - length fp) CHR ''0'' @ fp)))"

section \<open>The metrics of one design\<close>

text \<open>One entry of \<^verbatim>\<open>results\<close>; the fields are the keys of the dictionary.\<close>

record result =
  r_design :: string
  r_ff :: int
  r_logic :: int
  r_total :: int
  r_ratio :: pyfloat
  r_abc_area :: int
  r_ff_area :: int
  r_total_area :: int
  r_ff_area_pct :: pyfloat

text \<open>Line 159: \<^verbatim>\<open>ratio = ff / total if total > 0 else 0.0\<close>.\<close>

definition ratio_of :: "int \<Rightarrow> int \<Rightarrow> py_error + pyfloat" where
  "ratio_of ff total' = (if total' > 0 then py_truediv ff total' else Inr zero_float)"

text \<open>
  Line 162: \<^verbatim>\<open>ff_area_pct = (ff_area / total_area * 100) if total_area > 0 else 0.0\<close>.
\<close>

definition ff_area_pct_of :: "int \<Rightarrow> int \<Rightarrow> py_error + pyfloat" where
  "ff_area_pct_of ff_area total_area =
     (if total_area > 0
      then (case py_truediv ff_area total_area of
              Inl e \<Rightarrow> Inl e
            | Inr q \<Rightarrow> Inr (times100 q))
      else Inr zero_float)"

text \<open>Lines 158 to 173 of \<^verbatim>\<open>main\<close>: the result record of one design.\<close>

definition metrics :: "string \<Rightarrow> int \<Rightarrow> int \<Rightarrow> int \<Rightarrow> int \<Rightarrow> py_error + result" where
  "metrics tag ff total' abc_area ff_size =
     (let logic = total' - ff
      in case ratio_of ff total' of
           Inl e \<Rightarrow> Inl e
         | Inr ratio \<Rightarrow>
     (let ff_area = ff * ff_size;
          total_area = abc_area + ff_area
      in case ff_area_pct_of ff_area total_area of
           Inl e \<Rightarrow> Inl e
         | Inr ff_area_pct \<Rightarrow>
             Inr \<lparr>r_design = tag, r_ff = ff, r_logic = logic, r_total = total', r_ratio = ratio,
                  r_abc_area = abc_area, r_ff_area = ff_area, r_total_area = total_area,
                  r_ff_area_pct = ff_area_pct\<rparr>))"

section \<open>Rendering\<close>

definition csv_header :: string where
  "csv_header = ''design,ff,logic,total,ff_ratio,abc_area,ff_area,total_area,ff_area_pct''"

definition csv_row :: "result \<Rightarrow> string" where
  "csv_row r =
     r_design r @ '','' @ py_str (r_ff r) @ '','' @ py_str (r_logic r) @ '','' @ py_str (r_total r)
     @ '','' @ fmt_fixed 4 (r_ratio r) @ '','' @ py_str (r_abc_area r) @ '','' @ py_str (r_ff_area r)
     @ '','' @ py_str (r_total_area r) @ '','' @ fmt_fixed 2 (r_ff_area_pct r)"

definition human_row :: "result \<Rightarrow> string" where
  "human_row r =
     (let pct = times100 (r_ratio r)
      in r_design r @ '': '' @ py_str (r_ff r) @ ''/'' @ py_str (r_total r) @ '' FF (''
         @ fmt_fixed 1 pct @ ''%), area: '' @ py_str (r_abc_area r) @ '' logic + ''
         @ py_str (r_ff_area r) @ '' FF = '' @ py_str (r_total_area r) @ '' (''
         @ fmt_fixed 1 (r_ff_area_pct r) @ ''% FF)'')"

text \<open>The lines printed after the loop; each element is the argument of one \<^verbatim>\<open>print\<close>.\<close>

definition render :: "bool \<Rightarrow> int \<Rightarrow> result list \<Rightarrow> string list" where
  "render csv ff_size results =
     (if csv then csv_header # map csv_row results
      else (''(ff_size='' @ py_str ff_size @ '')'') # map human_row results)"

section \<open>The program: \<^verbatim>\<open>main\<close>\<close>

text \<open>The parsed command line.\<close>

record args =
  arg_yosys :: string
  arg_design :: "string option"
  arg_param :: "string list"
  arg_flow :: string
  arg_ff_size :: int
  arg_csv :: bool
  arg_verbose :: bool

text \<open>
  What the program reads from outside. The module \<^verbatim>\<open>analyze\<close> is not among the sources:
  \<open>env_discovered\<close> is the value of \<^verbatim>\<open>discover_designs("artifacts")\<close>, and
  \<open>env_param_suffix\<close> maps \<^verbatim>\<open>args.param\<close> to \<open>None\<close> when \<^verbatim>\<open>params_from_str\<close> gives a
  false value and to \<^verbatim>\<open>fmt_params(params)\<close> otherwise. \<open>env_exists\<close> is \<^verbatim>\<open>Path.exists\<close>,
  \<open>env_run_yosys\<close> is \<^verbatim>\<open>run_yosys\<close>.
\<close>

record env =
  env_discovered :: "string list"
  env_param_suffix :: "string list \<Rightarrow> string option"
  env_exists :: "string \<Rightarrow> bool"
  env_run_yosys :: "string \<Rightarrow> string \<Rightarrow> string"

text \<open>
  \<open>None\<close> stands for the exit at line 141. A design given on the command line counts
  when it is a non-empty string, as the test \<^verbatim>\<open>if args.design\<close> has it.
\<close>

definition designs_to_run :: "env \<Rightarrow> args \<Rightarrow> (string \<times> string) list option" where
  "designs_to_run e a =
     (if (case arg_design a of None \<Rightarrow> False | Some d \<Rightarrow> d \<noteq> []) then
        (let d = the (arg_design a)
         in case env_param_suffix e (arg_param a) of
              Some sfx \<Rightarrow> Some [(d, d @ ''_'' @ sfx)]
            | None \<Rightarrow> Some [(d, d)])
      else if env_discovered e = [] then None
      else Some (map (\<lambda>d. (d, d)) (env_discovered e)))"

text \<open>\<^verbatim>\<open>Path("artifacts") / f"{tag}.il"\<close>, printed, for a tag that is a plain file name.\<close>

definition artifact_path :: "string \<Rightarrow> string" where
  "artifact_path tag = ''artifacts/'' @ tag @ ''.il''"

record state =
  st_results :: "result list"
  st_out :: "string list"
  st_err :: "string list"

text \<open>
  The loop over the designs. The second component of the result is the exception
  that ended the loop, if one did.
\<close>

fun run_designs :: "env \<Rightarrow> args \<Rightarrow> (string \<times> string) list \<Rightarrow> state \<Rightarrow> state \<times> py_error option" where
  "run_designs e a [] s = (s, None)"
| "run_designs e a ((design, tag) # ds) s =
     (if \<not> env_exists e (artifact_path tag) then
        run_designs e a ds
          (s\<lparr>st_err := st_err s @ [''Artifact not found: '' @ artifact_path tag]\<rparr>)
      else
        (case get_counts (env_run_yosys e) (arg_yosys a) (artifact_path tag) (arg_flow a) of
           Inl x \<Rightarrow> (s, Some x)
         | Inr (ff, total', abc_area, output) \<Rightarrow>
             (let s1 = (if arg_verbose a
                        then s\<lparr>st_out := st_out s @ [''=== '' @ design @ '' ==='', output, []]\<rparr>
                        else s)
              in case metrics tag ff total' abc_area (arg_ff_size a) of
                   Inl x \<Rightarrow> (s1, Some x)
                 | Inr r \<Rightarrow> run_designs e a ds (s1\<lparr>st_results := st_results s1 @ [r]\<rparr>))))"

text \<open>
  How the process ends: \<open>Exit n\<close> through \<^verbatim>\<open>sys.exit(n)\<close> or, with \<open>n = 0\<close>, at the end of
  \<^verbatim>\<open>main\<close>; \<open>Uncaught x\<close> when the exception \<open>x\<close> is raised and nothing catches it.
\<close>

datatype outcome = Exit nat | Uncaught py_error

record run =
  run_stdout :: "string list"
  run_stderr :: "string list"
  run_status :: outcome

definition init_state :: state where
  "init_state = \<lparr>st_results = [], st_out = [], st_err = []\<rparr>"

definition main :: "env \<Rightarrow> args \<Rightarrow> run" where
  "main e a =
     (case designs_to_run e a of
        None \<Rightarrow>
          \<lparr>run_stdout = [], run_stderr = [''No designs found in artifacts/''], run_status = Exit 1\<rparr>
      | Some designs \<Rightarrow>
          (case run_designs e a designs init_state of
             (s, Some x) \<Rightarrow>
               \<lparr>run_stdout = st_out s, run_stderr = st_err s, run_status = Uncaught x\<rparr>
           | (s, None) \<Rightarrow>
               if st_results s = [] then
                 \<lparr>run_stdout = st_out s, run_stderr = st_err s @ [''No results''],
                  run_status = Exit 1\<rparr>
               else
                 \<lparr>run_stdout = st_out s @ render (arg_csv a) (arg_ff_size a) (st_results s),
                  run_stderr = st_err s, run_status = Exit 0\<rparr>))"

section \<open>Properties of the matcher\<close>

declare findall.simps [simp del]

lemma first_some_None_iff: "first_some xs = None \<longleftrightarrow> (\<forall>x\<in>set xs. x = None)"
  by (induction xs rule: first_some.induct) auto


lemma first_some_Cons: "first_some (x # xs) = (case x of None \<Rightarrow> first_some xs | Some y \<Rightarrow> Some y)"
  by (cases x) auto








lemma in_cls_Space [simp]: "in_cls Space = is_space"
  by (rule ext) simp



lemma rejects_Lit: "\<not> in_cls c x \<Longrightarrow> rejects c (Lit x # r)"
  by (auto simp: rejects_def)


















lemma first_some_exists: "x \<in> set xs \<Longrightarrow> f x \<noteq> None \<Longrightarrow> first_some (map f xs) \<noteq> None"
  by (auto simp: first_some_None_iff)















































subsection \<open>Deciding the descriptions on a concrete text\<close>
















section \<open>The extractor: what \<^verbatim>\<open>get_counts\<close> returns\<close>









section \<open>Properties of the float model\<close>

lemma pow2_pos [simp]: "0 < pow2 e"
  by (simp add: pow2_def)

lemma pow2_add: "pow2 (a + b) = pow2 a * pow2 b"
  by (simp add: pow2_def power_int_add)

lemma pow2_diff: "pow2 (a - b) = pow2 a / pow2 b"
  by (simp add: pow2_def power_int_diff)

lemma pow2_nat: "pow2 (int n) = 2 ^ n"
  by (simp add: pow2_def)

lemma pow2_0 [simp]: "pow2 0 = 1"
  by (simp add: pow2_def)

lemma pow2_mono: "a \<le> b \<Longrightarrow> pow2 a \<le> pow2 b"
  by (simp add: pow2_def power_int_increasing)

lemma pow2_strict_mono: "a < b \<Longrightarrow> pow2 a < pow2 b"
  by (simp add: pow2_def power_int_strict_increasing)

lemma pow2_le_iff: "pow2 a \<le> pow2 b \<longleftrightarrow> a \<le> b"
  using pow2_mono[of a b] pow2_strict_mono[of b a] by (auto simp: not_le[symmetric])

lemma pow2_less_iff: "pow2 a < pow2 b \<longleftrightarrow> a < b"
  using pow2_strict_mono[of a b] pow2_mono[of b a] by (auto simp: not_less[symmetric])

lemma pow2_nonneg_int: "0 \<le> j \<Longrightarrow> pow2 j = of_int (2 ^ nat j)"
  by (simp add: pow2_def power_int_nonneg_exp)

lemma round_half_even_cases:
  "round_half_even x = \<lfloor>x\<rfloor> \<and> x - of_int \<lfloor>x\<rfloor> \<le> 1 / 2
   \<or> round_half_even x = \<lfloor>x\<rfloor> + 1 \<and> 1 / 2 \<le> x - of_int \<lfloor>x\<rfloor>"
  by (auto simp: round_half_even_def Let_def)

lemma round_half_even_le: "x \<le> of_int n \<Longrightarrow> round_half_even x \<le> n"
proof -
  assume le: "x \<le> of_int n"
  have fl: "\<lfloor>x\<rfloor> \<le> n" using le by (simp add: floor_le_iff)
  show ?thesis
    using round_half_even_cases[of x]
  proof
    assume "round_half_even x = \<lfloor>x\<rfloor> \<and> x - of_int \<lfloor>x\<rfloor> \<le> 1 / 2"
    then show ?thesis using fl by simp
  next
    assume a: "round_half_even x = \<lfloor>x\<rfloor> + 1 \<and> 1 / 2 \<le> x - of_int \<lfloor>x\<rfloor>"
    then have "of_int \<lfloor>x\<rfloor> < x" by linarith
    then have "of_int \<lfloor>x\<rfloor> < (of_int n :: rat)" using le by linarith
    then have "\<lfloor>x\<rfloor> < n" by simp
    then show ?thesis using a by simp
  qed
qed

lemma round_half_even_ge: "of_int n \<le> x \<Longrightarrow> n \<le> round_half_even x"
proof -
  assume "of_int n \<le> x"
  then have "n \<le> \<lfloor>x\<rfloor>" by (simp add: le_floor_iff)
  then show ?thesis using round_half_even_cases[of x] by auto
qed

lemma round_half_even_unique:
  assumes "\<bar>x - of_int n\<bar> < 1 / 2"
  shows "round_half_even x = n"
proof -
  have a: "of_int n - 1 / 2 < x" "x < of_int n + 1 / 2" using assms by linarith+
  have fl: "\<lfloor>x\<rfloor> = n \<or> \<lfloor>x\<rfloor> = n - 1"
  proof -
    have "n - 1 \<le> \<lfloor>x\<rfloor>" using a(1) by (simp add: le_floor_iff) 
    moreover have "\<lfloor>x\<rfloor> \<le> n" using a(2) by (simp add: floor_le_iff)
    ultimately show ?thesis by linarith
  qed
  then show ?thesis
  proof
    assume f: "\<lfloor>x\<rfloor> = n"
    then have "x - of_int \<lfloor>x\<rfloor> < 1 / 2" using a(2) by simp
    then show ?thesis using f by (simp add: round_half_even_def Let_def)
  next
    assume f: "\<lfloor>x\<rfloor> = n - 1"
    then have "1 / 2 < x - of_int \<lfloor>x\<rfloor>" using a(1) by simp
    then show ?thesis using f by (simp add: round_half_even_def Let_def)
  qed
qed

lemma floorlog2_bounds:
  assumes "0 < a"
  shows "pow2 (int (floorlog 2 (nat a)) - 1) \<le> of_int a" "of_int a < pow2 (int (floorlog 2 (nat a)))"
proof -
  let ?l = "floorlog 2 (nat a)"
  have b: "2 ^ (?l - 1) \<le> nat a" "nat a < 2 ^ ?l"
    using floorlog_bounds[of "nat a" 2] assms by auto
  have l: "0 < ?l" using assms floorlog_eq_zero_iff[of 2 "nat a"] by (cases "?l = 0") auto
  have n: "(of_int a :: rat) = of_nat (nat a)" using assms by simp
  have "(2::rat) ^ (?l - 1) \<le> of_nat (nat a)"
    using b(1) by (metis of_nat_le_iff of_nat_numeral of_nat_power)
  moreover have "int ?l - 1 = int (?l - 1)" using l by simp
  ultimately show "pow2 (int ?l - 1) \<le> of_int a" by (simp only: n pow2_nat)
  have "of_nat (nat a) < (2::rat) ^ ?l"
    using b(2) by (metis of_nat_less_iff of_nat_numeral of_nat_power)
  then show "of_int a < pow2 (int ?l)" by (simp only: n pow2_nat)
qed

lemma floor_log2_bounds:
  assumes "0 < x"
  shows "pow2 (floor_log2 x) \<le> x" "x < pow2 (floor_log2 x + 1)"
proof -
  obtain a b where q: "quotient_of x = (a, b)" by (cases "quotient_of x")
  have b: "0 < b" using q by (rule quotient_of_denom_pos)
  have x: "x = of_int a / of_int b" using q by (rule quotient_of_div)
  have a: "0 < a" using assms b x by (simp add: zero_less_divide_iff)
  define la where "la = int (floorlog 2 (nat a))"
  define lb where "lb = int (floorlog 2 (nat b))"
  define e where "e = la - lb"
  have ba: "pow2 (la - 1) \<le> of_int a" "of_int a < pow2 la"
    unfolding la_def using floorlog2_bounds[OF a] by auto
  have bb: "pow2 (lb - 1) \<le> of_int b" "of_int b < pow2 lb"
    unfolding lb_def using floorlog2_bounds[OF b] by auto
  have bpos: "(0::rat) < of_int b" using b by simp
  have lower: "pow2 (e - 1) < x"
  proof -
    have "pow2 (e - 1) * of_int b < pow2 (e - 1) * pow2 lb" using bb(2) by simp
    also have "\<dots> = pow2 (la - 1)" by (simp add: pow2_add[symmetric] e_def)
    also have "\<dots> \<le> of_int a" by (rule ba(1))
    finally show ?thesis using bpos by (simp add: x pos_less_divide_eq)
  qed
  have upper: "x < pow2 (e + 1)"
  proof -
    have "of_int a < pow2 la" by (rule ba(2))
    also have "\<dots> = pow2 (e + 1) * pow2 (lb - 1)" by (simp add: pow2_add[symmetric] e_def)
    also have "\<dots> \<le> pow2 (e + 1) * of_int b" using bb(1) by simp
    finally show ?thesis using bpos by (simp add: x pos_divide_less_eq)
  qed
  have f: "floor_log2 x = (if pow2 e \<le> x then e else e - 1)"
    by (simp add: floor_log2_def q Let_def e_def la_def lb_def)
  show "pow2 (floor_log2 x) \<le> x" using lower by (simp add: f)
  show "x < pow2 (floor_log2 x + 1)" using upper by (auto simp: f not_le)
qed

lemma floor_log2_unique:
  assumes "pow2 e \<le> x" "x < pow2 (e + 1)"
  shows "floor_log2 x = e"
proof -
  have x: "0 < x" using assms(1) pow2_pos[of e] by linarith
  have "pow2 (floor_log2 x) < pow2 (e + 1)" using floor_log2_bounds(1)[OF x] assms(2) by linarith
  then have "floor_log2 x < e + 1" by (simp add: pow2_less_iff)
  moreover have "pow2 e < pow2 (floor_log2 x + 1)" using floor_log2_bounds(2)[OF x] assms(1) by linarith
  then have "e < floor_log2 x + 1" by (simp add: pow2_less_iff)
  ultimately show ?thesis by simp
qed

lemma floor_log2_less: "0 < x \<Longrightarrow> x < pow2 k \<Longrightarrow> floor_log2 x < k"
  using floor_log2_bounds(1)[of x] pow2_less_iff[of "floor_log2 x" k] by simp

lemma quantum_pos [simp]: "0 < quantum x"
  by (simp add: quantum_def)

lemma round_double_nonneg: "0 \<le> x \<Longrightarrow> 0 \<le> round_double x"
proof -
  assume x: "0 \<le> x"
  have "0 \<le> x / quantum x" by (rule divide_nonneg_pos[OF x quantum_pos])
  then have "0 \<le> round_half_even (x / quantum x)"
    using round_half_even_ge[of 0 "x / quantum x"] by simp
  then have "0 \<le> (of_int (round_half_even (x / quantum x)) :: rat) * quantum x"
    using quantum_pos[of x] by (intro mult_nonneg_nonneg) (simp_all add: less_imp_le)
  then show ?thesis by (simp add: round_double_def)
qed

lemma round_double_le:
  assumes x: "0 < x" and le: "x \<le> of_int k" and k: "x < pow2 52"
  shows "round_double x \<le> of_int k"
proof -
  define m where "m = max (floor_log2 x) (- 1022) - 52"
  have q: "quantum x = pow2 m" by (simp add: quantum_def m_def)
  have "floor_log2 x < 52" using floor_log2_less[OF x k] .
  then have m: "m \<le> 0" by (simp add: m_def)
  have one: "pow2 (- m) * pow2 m = 1" by (simp add: pow2_add[symmetric])
  have int: "pow2 (- m) = of_int (2 ^ nat (- m))" using m by (simp add: pow2_nonneg_int)
  have inv: "pow2 (- m) = 1 / pow2 m" by (simp add: pow2_def power_int_minus_divide)
  have "x / pow2 m = x * pow2 (- m)" by (simp add: inv)
  also have "\<dots> \<le> of_int k * pow2 (- m)" using le by simp
  also have "\<dots> = of_int (k * 2 ^ nat (- m))" by (simp add: int)
  finally have "round_half_even (x / pow2 m) \<le> k * 2 ^ nat (- m)"
    by (rule round_half_even_le)
  then have "(of_int (round_half_even (x / pow2 m)) :: rat) \<le> of_int (k * 2 ^ nat (- m))"
    by (simp only: of_int_le_iff)
  then have "of_int (round_half_even (x / pow2 m)) * pow2 m \<le> of_int (k * 2 ^ nat (- m)) * pow2 m"
    by simp
  also have "\<dots> = of_int k * (pow2 (- m) * pow2 m)" by (simp add: int)
  finally show ?thesis using x by (simp add: round_double_def q one)
qed

lemma round_double_eval:
  assumes "pow2 e \<le> x" "x < pow2 (e + 1)" "- 1022 \<le> e"
    and "\<bar>x / pow2 (e - 52) - of_int n\<bar> < 1 / 2"
  shows "round_double x = of_int n * pow2 (e - 52)"
proof -
  have x: "0 < x" using assms(1) pow2_pos[of e] by linarith
  have "floor_log2 x = e" using assms(1,2) by (rule floor_log2_unique)
  then have q: "quantum x = pow2 (e - 52)" using assms(3) by (simp add: quantum_def)
  show ?thesis using x round_half_even_unique[OF assms(4)] by (simp add: round_double_def q)
qed

lemma round_double_nearest:
  assumes "0 \<le> x"
  shows "\<bar>round_double x - x\<bar> \<le> quantum x / 2"
proof (cases "x = 0")
  case True
  then show ?thesis using quantum_pos[of x] by (simp add: round_double_def less_imp_le)
next
  case False
  define y where "y = x / quantum x"
  have c: "\<bar>of_int (round_half_even y) - y\<bar> \<le> 1 / 2"
    using round_half_even_cases[of y] of_int_floor_le[of y] floor_correct[of y]
    by (auto simp: abs_le_iff)
  have qn: "quantum x \<noteq> 0" using quantum_pos[of x] by (metis less_irrefl)
  have "round_double x - x = (of_int (round_half_even y) - y) * quantum x"
    using False qn by (simp add: round_double_def y_def field_simps)
  then have "\<bar>round_double x - x\<bar> = \<bar>of_int (round_half_even y) - y\<bar> * quantum x"
    using quantum_pos[of x] by (simp add: abs_mult less_imp_le)
  also have "\<dots> \<le> 1 / 2 * quantum x"
    using c quantum_pos[of x] by (intro mult_right_mono) (simp_all add: less_imp_le)
  finally show ?thesis by simp
qed

lemma pow2_1024_gt: "100 < pow2 1024"
proof -
  have "(100::rat) < pow2 7" by (simp add: pow2_def)
  also have "\<dots> \<le> pow2 1024" by (rule pow2_mono) simp
  finally show ?thesis .
qed

lemma pow2_52_gt: "100 < pow2 52"
proof -
  have "(100::rat) < pow2 7" by (simp add: pow2_def)
  also have "\<dots> \<le> pow2 52" by (rule pow2_mono) simp
  finally show ?thesis .
qed

lemma round_double_0 [simp]: "round_double 0 = 0"
  by (simp add: round_double_def)

lemma round_double_unit:
  assumes "0 \<le> x" "x \<le> 1"
  shows "0 \<le> round_double x" "round_double x \<le> 1"
proof -
  show "0 \<le> round_double x" using assms(1) by (rule round_double_nonneg)
  show "round_double x \<le> 1"
  proof (cases "x = 0")
    case True then show ?thesis by simp
  next
    case False
    then have "0 < x" using assms(1) by simp
    moreover have "x \<le> of_int 1" using assms(2) by simp
    moreover have "x < pow2 52" using assms(2) pow2_52_gt by linarith
    ultimately show ?thesis using round_double_le[of x 1] by simp
  qed
qed

lemma round_double_percent:
  assumes "0 \<le> x" "x \<le> 100"
  shows "0 \<le> round_double x" "round_double x \<le> 100"
proof -
  show "0 \<le> round_double x" using assms(1) by (rule round_double_nonneg)
  show "round_double x \<le> 100"
  proof (cases "x = 0")
    case True then show ?thesis by simp
  next
    case False
    then have "0 < x" using assms(1) by simp
    moreover have "x \<le> of_int 100" using assms(2) by simp
    moreover have "x < pow2 52" using assms(2) pow2_52_gt by linarith
    ultimately show ?thesis using round_double_le[of x 100] by simp
  qed
qed

lemma py_truediv_unit:
  assumes "0 \<le> a" "a \<le> b" "0 < b"
  shows "\<exists>m. py_truediv a b = Inr (Finite False m) \<and> 0 \<le> m \<and> m \<le> 1"
proof -
  define x :: rat where "x = of_int \<bar>a\<bar> / of_int \<bar>b\<bar>"
  have x: "0 \<le> x" "x \<le> 1" using assms by (simp_all add: x_def)
  have r: "0 \<le> round_double x" "round_double x \<le> 1" using round_double_unit[OF x] by auto
  have "\<not> pow2 1024 \<le> round_double x" using r(2) pow2_1024_gt by linarith
  then have "py_truediv a b = Inr (Finite False (round_double x))"
    using assms by (simp add: py_truediv_def x_def Let_def)
  then show ?thesis using r by blast
qed

lemma times100_unit:
  assumes "0 \<le> m" "m \<le> 1"
  shows "\<exists>r. times100 (Finite False m) = Finite False r \<and> 0 \<le> r \<and> r \<le> 100"
proof -
  have x: "0 \<le> m * 100" "m * 100 \<le> 100" using assms by simp_all
  have r: "0 \<le> round_double (m * 100)" "round_double (m * 100) \<le> 100"
    using round_double_percent[OF x] by auto
  have "\<not> pow2 1024 \<le> round_double (m * 100)" using r(2) pow2_1024_gt by linarith
  then have "times100 (Finite False m) = Finite False (round_double (m * 100))"
    by (simp add: times100_def Let_def)
  then show ?thesis using r by blast
qed

lemma py_truediv_no_zero_division: "b \<noteq> 0 \<Longrightarrow> py_truediv a b \<noteq> Inl ZeroDivisionError"
  by (simp add: py_truediv_def Let_def)




lemma metrics_Inr:
  "metrics tag ff t abc w = Inr r \<longleftrightarrow>
     (\<exists>x y. ratio_of ff t = Inr x \<and> ff_area_pct_of (ff * w) (abc + ff * w) = Inr y \<and>
        r = \<lparr>r_design = tag, r_ff = ff, r_logic = t - ff, r_total = t, r_ratio = x,
             r_abc_area = abc, r_ff_area = ff * w, r_total_area = abc + ff * w,
             r_ff_area_pct = y\<rparr>)"
  by (auto simp: metrics_def Let_def split: sum.splits)


lemma ratio_of_unit:
  assumes "0 \<le> ff" "ff \<le> t"
  shows "\<exists>x. ratio_of ff t = Inr x \<and> float_between 0 1 x"
proof (cases "0 < t")
  case True
  then show ?thesis using py_truediv_unit[OF assms True]
    by (auto simp: ratio_of_def float_between_def)
next
  case False
  then show ?thesis by (simp add: ratio_of_def float_between_def zero_float_def)
qed

lemma ff_area_pct_of_percent:
  assumes "0 \<le> fa" "fa \<le> ta"
  shows "\<exists>y. ff_area_pct_of fa ta = Inr y \<and> float_between 0 100 y"
proof (cases "0 < ta")
  case True
  obtain m where m: "py_truediv fa ta = Inr (Finite False m)" "0 \<le> m" "m \<le> 1"
    using py_truediv_unit[OF assms True] by blast
  obtain r where "times100 (Finite False m) = Finite False r" "0 \<le> r" "r \<le> 100"
    using times100_unit[OF m(2,3)] by blast
  then show ?thesis using True m(1)
    by (simp add: ff_area_pct_of_def float_between_def)
next
  case False
  then show ?thesis by (simp add: ff_area_pct_of_def float_between_def zero_float_def)
qed




section \<open>The metrics\<close>





text \<open>
  C7. For \<open>0 \<le> ff \<le> total\<close> the computed ratio is a float in \<open>[0, 1]\<close>, and \<open>0.0\<close> when
  \<open>total = 0\<close>. For non-negative \<open>abc_area\<close>, \<open>ff\<close> and \<open>ff_size\<close> the total area is
  \<open>abc_area + ff * ff_size\<close> and the computed percentage is a float in \<open>[0, 100]\<close>. Under
  both conditions the record is produced.
\<close>

theorem ratio_and_percentage_ranges:
  "(0 \<le> ff \<and> ff \<le> t \<longrightarrow>
      (\<exists>x. ratio_of ff t = Inr x \<and> float_between 0 1 x)
      \<and> (t = 0 \<longrightarrow> ratio_of ff t = Inr zero_float))
   \<and> (0 \<le> abc \<and> 0 \<le> ff \<and> 0 \<le> w \<longrightarrow>
      (\<exists>y. ff_area_pct_of (ff * w) (abc + ff * w) = Inr y \<and> float_between 0 100 y)
      \<and> (\<forall>r. metrics tag ff t abc w = Inr r \<longrightarrow>
            r_total_area r = abc + ff * w \<and> float_between 0 100 (r_ff_area_pct r)))
   \<and> (0 \<le> ff \<and> ff \<le> t \<and> 0 \<le> abc \<and> 0 \<le> w \<longrightarrow>
      (\<exists>r. metrics tag ff t abc w = Inr r \<and> float_between 0 1 (r_ratio r)
           \<and> float_between 0 100 (r_ff_area_pct r) \<and> r_total_area r = abc + ff * w))"
proof -
  have a: "\<exists>x. ratio_of ff t = Inr x \<and> float_between 0 1 x" if "0 \<le> ff" "ff \<le> t"
    using ratio_of_unit[OF that] .
  have a0: "ratio_of ff t = Inr zero_float" if "t = 0"
    using that by (simp add: ratio_of_def)
  have b: "\<exists>y. ff_area_pct_of (ff * w) (abc + ff * w) = Inr y \<and> float_between 0 100 y"
    if "0 \<le> abc" "0 \<le> ff" "0 \<le> w"
  proof (rule ff_area_pct_of_percent)
    show "0 \<le> ff * w" using that by simp
    show "ff * w \<le> abc + ff * w" using that by simp
  qed
  show ?thesis using a a0 b by (auto simp: metrics_Inr)
qed

theorem ratio_and_percentage_ranges_witness:
  "\<exists>r. metrics ''d'' 42 130 100 6 = Inr r \<and> float_between 0 1 (r_ratio r)
      \<and> float_between 0 100 (r_ff_area_pct r) \<and> r_total_area r = 352"
proof -
  have "(0::int) \<le> 42 \<and> (42::int) \<le> 130 \<and> (0::int) \<le> 100 \<and> (0::int) \<le> 6" by simp
  then show ?thesis
    using ratio_and_percentage_ranges[of 42 130 100 6 "''d''"] by simp
qed

end
